theory Spec2Isabelle
  imports Complex_Main
begin

section \<open>Chat messages and the token counter\<close>

text \<open>
  A chat message is the JavaScript object \<^verbatim>\<open>{ role, content }\<close>. The role is kept as
  the string the code compares against \<^verbatim>\<open>"system"\<close>.
\<close>

record message =
  role :: string
  content :: string

text \<open>
  The tokenizer (\<^verbatim>\<open>encoding_for_model("gpt-4o-mini")\<close> of the tiktoken package) is an
  external library. It is a parameter of the model: \<open>enc s\<close> stands for
  \<^verbatim>\<open>enc.encode(s).length\<close>.
\<close>

type_synonym encoder = "string \<Rightarrow> nat"

definition approxTokens :: "encoder \<Rightarrow> message \<Rightarrow> nat" where
  "approxTokens enc m = enc (content m)"

definition totalApproxTokens :: "encoder \<Rightarrow> message list \<Rightarrow> nat" where
  "totalApproxTokens enc ms = sum_list (map (approxTokens enc) ms)"

definition isSystem :: "message \<Rightarrow> bool" where
  "isSystem m \<longleftrightarrow> role m = ''system''"

text \<open>\<^verbatim>\<open>[x].filter(Boolean)\<close> on a value that is an object or \<^verbatim>\<open>undefined\<close>.\<close>

fun filterBoolean :: "'a option list \<Rightarrow> 'a list" where
  "filterBoolean [] = []"
| "filterBoolean (None # xs) = filterBoolean xs"
| "filterBoolean (Some x # xs) = x # filterBoolean xs"

section \<open>Strategy 3: token-based truncation (notes.md, truncateByTokens)\<close>

text \<open>
  The \<^verbatim>\<open>for (let i = messages.length - 1; i >= 0; i--)\<close> loop, as a recursion over the
  messages from newest to oldest. \<^verbatim>\<open>continue\<close> skips a system message, \<^verbatim>\<open>break\<close> returns
  the result built so far, \<^verbatim>\<open>result.unshift(msg)\<close> puts \<open>msg\<close> in front of the result.
\<close>

fun walkNewestFirst :: "encoder \<Rightarrow> nat \<Rightarrow> message list \<Rightarrow> nat \<Rightarrow> message list \<Rightarrow> message list" where
  "walkNewestFirst enc maxTokens [] totalTokens result = result"
| "walkNewestFirst enc maxTokens (msg # older) totalTokens result =
     (if role msg = ''system'' then walkNewestFirst enc maxTokens older totalTokens result
      else if totalTokens + enc (content msg) > maxTokens then result
      else walkNewestFirst enc maxTokens older (totalTokens + enc (content msg)) (msg # result))"

definition truncateByTokens :: "encoder \<Rightarrow> message list \<Rightarrow> nat \<Rightarrow> message list" where
  "truncateByTokens enc messages maxTokens =
     (case find (\<lambda>m. role m = ''system'') messages of
        None \<Rightarrow> walkNewestFirst enc maxTokens (rev messages) 0 []
      | Some systemMsg \<Rightarrow>
          walkNewestFirst enc maxTokens (rev messages) (enc (content systemMsg)) [systemMsg])"

text \<open>The parts of a conversation the statements below speak about.\<close>

definition nonSystem :: "message list \<Rightarrow> message list" where
  "nonSystem ms = filter (\<lambda>m. role m \<noteq> ''system'') ms"

definition pinnedSystem :: "message list \<Rightarrow> message list" where
  "pinnedSystem ms = (case find (\<lambda>m. role m = ''system'') ms of None \<Rightarrow> [] | Some s \<Rightarrow> [s])"

section \<open>Array.prototype.slice\<close>

text \<open>
  \<^verbatim>\<open>xs.slice(start, end)\<close> on integer arguments: a negative index counts from the
  end of the array and is clamped at 0, a non-negative one is clamped at the length;
  the slice is empty when the end does not lie after the start. \<^verbatim>\<open>-0\<close> is \<open>0\<close>, so
  \<^verbatim>\<open>xs.slice(-0)\<close> is the whole array.
\<close>

definition relativeIndex :: "nat \<Rightarrow> int \<Rightarrow> nat" where
  "relativeIndex len i = (if i < 0 then nat (max (int len + i) 0) else min (nat i) len)"

definition slice :: "'a list \<Rightarrow> int \<Rightarrow> int \<Rightarrow> 'a list" where
  "slice xs start end =
     (let k = relativeIndex (length xs) start; final = relativeIndex (length xs) end
      in take (final - k) (drop k xs))"

definition sliceFrom :: "'a list \<Rightarrow> int \<Rightarrow> 'a list" where
  "sliceFrom xs start = drop (relativeIndex (length xs) start) xs"

section \<open>Strategy 1: sliding window (notes.md, truncateMessages)\<close>

definition truncateMessages :: "message list \<Rightarrow> int \<Rightarrow> message list" where
  "truncateMessages messages maxMessages =
     (let systemMessage = find (\<lambda>m. role m = ''system'') messages;
          recentMessages = sliceFrom messages (- maxMessages)
      in case systemMessage of
           Some s \<Rightarrow> s # recentMessages
         | None \<Rightarrow> recentMessages)"

section \<open>The completion provider\<close>

text \<open>
  \<^verbatim>\<open>client.chat.completions.create\<close> of the OpenAI SDK is an external, network-bound
  call. It is a parameter of the model: a function from the request and the state of the
  outside world to either an error (the rejected promise) or a completion, and the new
  state of the world. A choice may lack its message, and a message's content may be
  \<^verbatim>\<open>null\<close>.
\<close>

datatype jsError = ProviderError string | TypeError

record choice =
  choiceMessage :: "string option option"

record usage =
  promptTokens :: nat
  completionTokens :: nat
  totalTokens :: nat

record completion =
  choices :: "choice list"
  completionUsage :: usage

record summaryRequest =
  summaryModel :: string
  summaryMessages :: "message list"
  summaryMaxTokens :: nat

type_synonym 'w summaryClient = "summaryRequest \<Rightarrow> 'w \<Rightarrow> (jsError + completion) \<times> 'w"

section \<open>Strategy 2: summarization (notes.md, summarizeOldMessages)\<close>

text \<open>\<^verbatim>\<open>xs.join('\n')\<close> with the separator given.\<close>

fun joinWith :: "string \<Rightarrow> string list \<Rightarrow> string" where
  "joinWith sep [] = []"
| "joinWith sep [x] = x"
| "joinWith sep (x # y # ys) = x @ sep @ joinWith sep (y # ys)"

definition newline :: string where
  "newline = [CHR 0x0A]"

definition summaryPrompt :: "message list \<Rightarrow> string" where
  "summaryPrompt oldMessages =
     ''Summarize this conversation concisely:'' @ newline @ newline
       @ joinWith newline (map (\<lambda>m. role m @ '': '' @ content m) oldMessages)"

definition summaryRequestFor :: "message list \<Rightarrow> summaryRequest" where
  "summaryRequestFor oldMessages =
     \<lparr> summaryModel = ''gpt-4o-mini'',
       summaryMessages =
         [\<lparr> role = ''system'', content = ''You are a conversation summarizer.'' \<rparr>,
          \<lparr> role = ''user'', content = summaryPrompt oldMessages \<rparr>],
       summaryMaxTokens = 200 \<rparr>"

text \<open>
  \<^verbatim>\<open>summary.choices[0].message.content\<close>: reading \<^verbatim>\<open>message\<close> of a missing first choice, or
  \<^verbatim>\<open>content\<close> of a missing message, throws a TypeError; a \<^verbatim>\<open>null\<close> content is
  interpolated as the text \<^verbatim>\<open>null\<close>.
\<close>

definition firstChoiceContent :: "completion \<Rightarrow> jsError + string" where
  "firstChoiceContent c =
     (case choices c of
        [] \<Rightarrow> Inl TypeError
      | ch # _ \<Rightarrow>
          (case choiceMessage ch of
             None \<Rightarrow> Inl TypeError
           | Some None \<Rightarrow> Inr ''null''
           | Some (Some text) \<Rightarrow> Inr text))"

definition summarizeOldMessages ::
  "'w summaryClient \<Rightarrow> message list \<Rightarrow> 'w \<Rightarrow> (jsError + message) \<times> 'w" where
  "summarizeOldMessages client oldMessages w =
     (case client (summaryRequestFor oldMessages) w of
        (Inl err, w') \<Rightarrow> (Inl err, w')
      | (Inr summary, w') \<Rightarrow>
          (case firstChoiceContent summary of
             Inl err \<Rightarrow> (Inl err, w')
           | Inr text \<Rightarrow>
               (Inr \<lparr> role = ''system'',
                      content = ''Previous conversation summary: '' @ text \<rparr>, w')))"

section \<open>Strategy 4: hybrid (notes.md, smartContextManagement)\<close>

text \<open>
  \<^verbatim>\<open>estimateTokens\<close> is called by the code and defined nowhere in the repository: it is a
  parameter. The \<^verbatim>\<open>await\<close> of \<^verbatim>\<open>summarizeOldMessages\<close> stands in no \<^verbatim>\<open>try\<close> block, so its
  rejection is the rejection of \<^verbatim>\<open>smartContextManagement\<close>.
\<close>

definition oldSegment :: "message list \<Rightarrow> int \<Rightarrow> message list" where
  "oldSegment messages maxRecent =
     slice messages
       (case find (\<lambda>m. role m = ''system'') messages of Some _ \<Rightarrow> 1 | None \<Rightarrow> 0)
       (- maxRecent)"

definition smartContextManagement ::
  "'w summaryClient \<Rightarrow> (message list \<Rightarrow> nat) \<Rightarrow> message list \<Rightarrow> int \<Rightarrow> nat \<Rightarrow> 'w
     \<Rightarrow> (jsError + message list) \<times> 'w" where
  "smartContextManagement client estimateTokens messages maxRecent maxTokens w =
     (if estimateTokens messages < maxTokens then (Inr messages, w)
      else
        let systemMsg = find (\<lambda>m. role m = ''system'') messages;
            recentMessages = sliceFrom messages (- maxRecent);
            oldMessages = oldSegment messages maxRecent
        in if length oldMessages > 0 then
             (case summarizeOldMessages client oldMessages w of
                (Inl err, w') \<Rightarrow> (Inl err, w')
              | (Inr summary, w') \<Rightarrow>
                  (Inr (filterBoolean ([systemMsg, Some summary] @ map Some recentMessages)), w'))
           else (Inr (filterBoolean (systemMsg # map Some recentMessages)), w))"

section \<open>The terminal client (cli.js, callChatEndpoint)\<close>

text \<open>
  The module-level array \<^verbatim>\<open>messages\<close> is the state: \<^verbatim>\<open>callChatEndpoint\<close> takes it and
  returns it as the calls of \<^verbatim>\<open>messages.push\<close> leave it, together with the reply or the
  error thrown. \<^verbatim>\<open>fetch\<close> is a parameter: it either rejects (no connection) or yields a
  response with its status, its body as text and, when the body is a JSON object, the
  \<^verbatim>\<open>reply\<close> field of that object (\<open>None\<close> when the field is absent or \<^verbatim>\<open>null\<close>).
  \<^verbatim>\<open>res.ok\<close> is a status from 200 to 299.
\<close>

record chatBody =
  bodyMessages :: "message list"
  bodyTemperature :: rat
  bodyMaxTokens :: nat

datatype fetchResult =
    FetchRejected string
  | HttpResponse nat string "string option option"

datatype cliError = NetworkError string | HttpError nat string | InvalidJson

definition callChatEndpoint ::
  "(chatBody \<Rightarrow> fetchResult) \<Rightarrow> message list \<Rightarrow> string \<Rightarrow> (cliError + string) \<times> message list" where
  "callChatEndpoint fetch messages userInput =
     (let pushed = messages @ [\<lparr> role = ''user'', content = userInput \<rparr>];
          body = \<lparr> bodyMessages = pushed, bodyTemperature = 7 / 10, bodyMaxTokens = 256 \<rparr>
      in case fetch body of
           FetchRejected reason \<Rightarrow> (Inl (NetworkError reason), pushed)
         | HttpResponse status errorBody parsed \<Rightarrow>
             if \<not> (200 \<le> status \<and> status \<le> 299) then (Inl (HttpError status errorBody), pushed)
             else
               (case parsed of
                  None \<Rightarrow> (Inl InvalidJson, pushed)
                | Some replyField \<Rightarrow>
                    let reply = (case replyField of
                                   None \<Rightarrow> ''(no reply)''
                                 | Some r \<Rightarrow> if r = [] then ''(no reply)'' else r)
                    in (Inr reply, pushed @ [\<lparr> role = ''assistant'', content = reply \<rparr>])))"

section \<open>The server (POST /chat)\<close>

text \<open>
  The request body is what \<^verbatim>\<open>express.json()\<close> parsed: a JSON value, or \<^verbatim>\<open>undefined\<close>
  (\<open>None\<close>). An object is the list of its members.
\<close>

datatype json =
    JNull
  | JBool bool
  | JNum rat
  | JStr string
  | JArr "json list"
  | JObj "(string \<times> json) list"

fun truthy :: "json \<Rightarrow> bool" where
  "truthy JNull = False"
| "truthy (JBool b) = b"
| "truthy (JNum n) = (n \<noteq> 0)"
| "truthy (JStr s) = (s \<noteq> [])"
| "truthy (JArr _) = True"
| "truthy (JObj _) = True"

text \<open>\<^verbatim>\<open>req.body || {}\<close>\<close>

definition bodyOrEmpty :: "json option \<Rightarrow> json" where
  "bodyOrEmpty reqBody =
     (case reqBody of None \<Rightarrow> JObj [] | Some b \<Rightarrow> if truthy b then b else JObj [])"

text \<open>
  Reading one of the members \<^verbatim>\<open>messages\<close>, \<^verbatim>\<open>temperature\<close>, \<^verbatim>\<open>max_tokens\<close>, \<^verbatim>\<open>model\<close> in the
  destructuring: \<^verbatim>\<open>undefined\<close> (\<open>None\<close>) on anything but an object that has it. A default
  of the destructuring applies to \<^verbatim>\<open>undefined\<close> only.
\<close>

fun readMember :: "json \<Rightarrow> string \<Rightarrow> json option" where
  "readMember (JObj kvs) key = map_of kvs key"
| "readMember _ key = None"

definition orDefault :: "json option \<Rightarrow> json \<Rightarrow> json" where
  "orDefault v d = (case v of None \<Rightarrow> d | Some x \<Rightarrow> x)"

definition isArray :: "json option \<Rightarrow> bool" where
  "isArray v = (case v of Some (JArr _) \<Rightarrow> True | _ \<Rightarrow> False)"

definition arrayItems :: "json option \<Rightarrow> json list" where
  "arrayItems v = (case v of Some (JArr xs) \<Rightarrow> xs | _ \<Rightarrow> [])"

record completionRequest =
  requestModel :: json
  requestMessages :: "json list"
  requestTemperature :: json
  requestMaxTokens :: json

type_synonym 'w chatClient = "completionRequest \<Rightarrow> 'w \<Rightarrow> (jsError + completion) \<times> 'w"

text \<open>
  The JSON answers of the handler: \<^verbatim>\<open>{ error, details }\<close> and \<^verbatim>\<open>{ reply, usage, raw }\<close>.
  \<open>details\<close> holds the error that \<^verbatim>\<open>String(err)\<close> renders.
\<close>

datatype responseBody =
    ErrorBody string "jsError option"
  | ReplyBody "string option option" usage completion

record httpResponse =
  statusCode :: nat
  responseBody :: responseBody

definition badRequest :: httpResponse where
  "badRequest =
     \<lparr> statusCode = 400,
       responseBody = ErrorBody ''messages array is required and must not be empty'' None \<rparr>"

text \<open>The \<^verbatim>\<open>catch\<close> block; \<open>development\<close> is \<^verbatim>\<open>process.env.NODE_ENV === "development"\<close>.\<close>

definition internalError :: "bool \<Rightarrow> jsError \<Rightarrow> httpResponse" where
  "internalError development err =
     \<lparr> statusCode = 500,
       responseBody = ErrorBody ''Something went wrong'' (if development then Some err else None) \<rparr>"

definition chatHandler ::
  "'w chatClient \<Rightarrow> bool \<Rightarrow> json option \<Rightarrow> 'w \<Rightarrow> httpResponse \<times> 'w" where
  "chatHandler client development reqBody w =
     (let body = bodyOrEmpty reqBody;
          messages = readMember body ''messages'';
          temperature = orDefault (readMember body ''temperature'') (JNum (7 / 10));
          max_tokens = orDefault (readMember body ''max_tokens'') (JNum 256);
          model = orDefault (readMember body ''model'') (JStr ''gpt-4.1-mini'')
      in if \<not> isArray messages \<or> length (arrayItems messages) = 0 then (badRequest, w)
         else
           (case client \<lparr> requestModel = model, requestMessages = arrayItems messages,
                          requestTemperature = temperature, requestMaxTokens = max_tokens \<rparr> w of
              (Inl err, w') \<Rightarrow> (internalError development err, w')
            | (Inr completion, w') \<Rightarrow>
                (case choices completion of
                   [] \<Rightarrow> (internalError development TypeError, w')
                 | ch # _ \<Rightarrow>
                     (\<lparr> statusCode = 200,
                        responseBody =
                          ReplyBody (choiceMessage ch) (completionUsage completion) completion \<rparr>,
                      w'))))"

section \<open>Collaborators used in the examples\<close>

text \<open>
  The conversation the terminal client starts from (cli.js, \<^verbatim>\<open>const messages\<close>), and
  stand-ins for the external services: a provider that is down, a provider whose answer
  changes from call to call, a server that answers every request with status 500, and a
  token estimate that counts one token per character.
\<close>

definition initialMessages :: "message list" where
  "initialMessages =
     [\<lparr> role = ''system'',
        content = ''You are a helpful assistant chatting in the terminal.'' \<rparr>]"

definition providerDown :: "'w summaryClient" where
  "providerDown request w = (Inl (ProviderError ''provider down''), w)"

definition countingProvider :: "nat summaryClient" where
  "countingProvider request n =
     (Inr \<lparr> choices = [\<lparr> choiceMessage = Some (Some (replicate n CHR ''x'')) \<rparr>],
            completionUsage = \<lparr> promptTokens = 0, completionTokens = n, totalTokens = n \<rparr> \<rparr>,
      Suc n)"

definition countingProviderChat :: "nat chatClient" where
  "countingProviderChat request n =
     (Inr \<lparr> choices = [\<lparr> choiceMessage = Some (Some (replicate n CHR ''x'')) \<rparr>],
            completionUsage = \<lparr> promptTokens = 0, completionTokens = n, totalTokens = n \<rparr> \<rparr>,
      Suc n)"

definition serverError :: "chatBody \<Rightarrow> fetchResult" where
  "serverError body = HttpResponse 500 ''Something went wrong'' None"

definition charCount :: "message list \<Rightarrow> nat" where
  "charCount ms = totalApproxTokens length ms"

section \<open>Conditions the statements speak about\<close>

text \<open>The completion call of a turn failed: \<^verbatim>\<open>fetch\<close> rejected, or the status is not a success.\<close>

definition callFailed :: "fetchResult \<Rightarrow> bool" where
  "callFailed r =
     (case r of
        FetchRejected _ \<Rightarrow> True
      | HttpResponse status _ _ \<Rightarrow> \<not> (200 \<le> status \<and> status \<le> 299))"

text \<open>The \<^verbatim>\<open>messages\<close> member of the request body is a non-empty array.\<close>

definition hasMessages :: "json option \<Rightarrow> bool" where
  "hasMessages reqBody =
     (case reqBody of
        Some (JObj kvs) \<Rightarrow>
          (case map_of kvs ''messages'' of Some (JArr (m # ms)) \<Rightarrow> True | _ \<Rightarrow> False)
      | _ \<Rightarrow> False)"

section \<open>Properties of the newest-to-oldest walk\<close>

lemma totalApproxTokens_Nil [simp]: "totalApproxTokens enc [] = 0"
  by (simp add: totalApproxTokens_def)

lemma totalApproxTokens_Cons [simp]:
  "totalApproxTokens enc (m # ms) = enc (content m) + totalApproxTokens enc ms"
  by (simp add: totalApproxTokens_def approxTokens_def)

lemma totalApproxTokens_append [simp]:
  "totalApproxTokens enc (xs @ ys) = totalApproxTokens enc xs + totalApproxTokens enc ys"
  by (simp add: totalApproxTokens_def)

lemma totalApproxTokens_rev [simp]: "totalApproxTokens enc (rev xs) = totalApproxTokens enc xs"
  by (induction xs) simp_all

lemma nonSystem_Nil [simp]: "nonSystem [] = []"
  by (simp add: nonSystem_def)

lemma nonSystem_Cons [simp]:
  "nonSystem (m # ms) = (if role m = ''system'' then nonSystem ms else m # nonSystem ms)"
  by (simp add: nonSystem_def)

lemma nonSystem_rev: "nonSystem (rev ms) = rev (nonSystem ms)"
  by (simp add: nonSystem_def rev_filter)

text \<open>
  The walk keeps a prefix of the non-system messages it is given (newest first), in
  reversed order, in front of the accumulator. The kept prefix fits the budget, and the
  walk stopped only because the next message did not fit.
\<close>

lemma walkNewestFirst_prefix:
  "\<exists>k \<le> length (nonSystem xs).
     walkNewestFirst enc maxTokens xs tot res0 = rev (take k (nonSystem xs)) @ res0
   \<and> (0 < k \<longrightarrow> tot + totalApproxTokens enc (take k (nonSystem xs)) \<le> maxTokens)
   \<and> (k < length (nonSystem xs) \<longrightarrow>
        maxTokens < tot + totalApproxTokens enc (take (Suc k) (nonSystem xs)))"
proof (induction xs arbitrary: tot res0)
  case Nil
  show ?case by simp
next
  case (Cons msg older)
  show ?case
  proof (cases "role msg = ''system''")
    case True
    with Cons.IH [of tot res0] show ?thesis by simp
  next
    case notSys: False
    show ?thesis
    proof (cases "tot + enc (content msg) > maxTokens")
      case True
      with notSys show ?thesis by (intro exI [of _ 0]) simp
    next
      case False
      from Cons.IH [of "tot + enc (content msg)" "msg # res0"]
      obtain k where k: "k \<le> length (nonSystem older)"
        and res: "walkNewestFirst enc maxTokens older (tot + enc (content msg)) (msg # res0)
                  = rev (take k (nonSystem older)) @ msg # res0"
        and fit: "0 < k \<longrightarrow> tot + enc (content msg)
                    + totalApproxTokens enc (take k (nonSystem older)) \<le> maxTokens"
        and stop: "k < length (nonSystem older) \<longrightarrow> maxTokens < tot + enc (content msg)
                    + totalApproxTokens enc (take (Suc k) (nonSystem older))"
        by blast
      from False have fit0: "tot + enc (content msg) \<le> maxTokens" by simp
      show ?thesis
      proof (intro exI [of _ "Suc k"] conjI)
        show "Suc k \<le> length (nonSystem (msg # older))" using k notSys by simp
        show "walkNewestFirst enc maxTokens (msg # older) tot res0
              = rev (take (Suc k) (nonSystem (msg # older))) @ res0"
          using notSys False res by simp
        show "0 < Suc k \<longrightarrow> tot + totalApproxTokens enc (take (Suc k) (nonSystem (msg # older)))
              \<le> maxTokens"
          using notSys fit fit0 by (cases k) (simp_all add: add.assoc)
        show "Suc k < length (nonSystem (msg # older)) \<longrightarrow> maxTokens
              < tot + totalApproxTokens enc (take (Suc (Suc k)) (nonSystem (msg # older)))"
          using notSys stop by (simp add: add.assoc)
      qed
    qed
  qed
qed

lemma truncateByTokens_walk:
  "truncateByTokens enc C maxTokens =
     walkNewestFirst enc maxTokens (rev C) (totalApproxTokens enc (pinnedSystem C)) (pinnedSystem C)"
  by (simp add: truncateByTokens_def pinnedSystem_def split: option.splits)

lemma truncateByTokens_suffix:
  "\<exists>k \<le> length (nonSystem C).
     truncateByTokens enc C maxTokens = drop k (nonSystem C) @ pinnedSystem C
   \<and> (k < length (nonSystem C) \<longrightarrow>
        totalApproxTokens enc (pinnedSystem C) + totalApproxTokens enc (drop k (nonSystem C))
          \<le> maxTokens)
   \<and> (0 < k \<longrightarrow>
        maxTokens < totalApproxTokens enc (pinnedSystem C)
          + totalApproxTokens enc (drop (k - 1) (nonSystem C)))"
proof -
  let ?ns = "nonSystem C" and ?st = "totalApproxTokens enc (pinnedSystem C)"
  let ?n = "length ?ns"
  from walkNewestFirst_prefix [of "rev C" enc maxTokens ?st "pinnedSystem C"]
  obtain j where j: "j \<le> ?n"
    and res: "truncateByTokens enc C maxTokens = rev (take j (rev ?ns)) @ pinnedSystem C"
    and fit: "0 < j \<longrightarrow> ?st + totalApproxTokens enc (take j (rev ?ns)) \<le> maxTokens"
    and stop: "j < ?n \<longrightarrow> maxTokens < ?st + totalApproxTokens enc (take (Suc j) (rev ?ns))"
    by (auto simp: nonSystem_rev truncateByTokens_walk)
  show ?thesis
  proof (intro exI [of _ "?n - j"] conjI)
    show "?n - j \<le> ?n" by simp
    show "truncateByTokens enc C maxTokens = drop (?n - j) ?ns @ pinnedSystem C"
      using res by (simp add: take_rev)
    show "?n - j < ?n \<longrightarrow> ?st + totalApproxTokens enc (drop (?n - j) ?ns) \<le> maxTokens"
      using fit j by (auto simp: take_rev)
    show "0 < ?n - j \<longrightarrow> maxTokens < ?st + totalApproxTokens enc (drop (?n - j - 1) ?ns)"
      using stop j by (auto simp: take_rev)
  qed
qed

lemma totalApproxTokens_drop_antimono:
  "i \<le> j \<Longrightarrow> totalApproxTokens enc (drop j xs) \<le> totalApproxTokens enc (drop i xs)"
proof -
  assume "i \<le> j"
  then have "drop i xs = take (j - i) (drop i xs) @ drop j xs"
    by (metis append_take_drop_id drop_drop le_add_diff_inverse2)
  then have "totalApproxTokens enc (drop i xs)
      = totalApproxTokens enc (take (j - i) (drop i xs)) + totalApproxTokens enc (drop j xs)"
    by (metis totalApproxTokens_append)
  then show ?thesis by simp
qed

lemma find_Some_holds: "find P xs = Some x \<Longrightarrow> P x"
  by (induction xs) (auto split: if_splits)

lemma pinnedSystem_cases:
  "(pinnedSystem C = [] \<and> find (\<lambda>m. role m = ''system'') C = None)
   \<or> (\<exists>s. pinnedSystem C = [s] \<and> find (\<lambda>m. role m = ''system'') C = Some s \<and> role s = ''system'')"
proof (cases "find (\<lambda>m. role m = ''system'') C")
  case None
  then show ?thesis by (simp add: pinnedSystem_def)
next
  case (Some s)
  then have "role s = ''system''" by (rule find_Some_holds)
  with Some show ?thesis by (simp add: pinnedSystem_def)
qed

lemma nonSystem_filter_system [simp]: "filter (\<lambda>m. role m = ''system'') (drop k (nonSystem C)) = []"
  by (auto simp: nonSystem_def filter_empty_conv dest: in_set_dropD)

lemma pinnedSystem_filter_system [simp]:
  "filter (\<lambda>m. role m = ''system'') (pinnedSystem C) = pinnedSystem C"
  using pinnedSystem_cases [of C] by auto

lemma nonSystem_drop_nonSystem: "nonSystem (drop k (nonSystem C) @ pinnedSystem C) = drop k (nonSystem C)"
proof -
  have "filter (\<lambda>m. role m \<noteq> ''system'') (drop k (nonSystem C)) = drop k (nonSystem C)"
    by (auto simp: nonSystem_def filter_id_conv dest: in_set_dropD)
  moreover have "filter (\<lambda>m. role m \<noteq> ''system'') (pinnedSystem C) = []"
    using pinnedSystem_cases [of C] by auto
  ultimately show ?thesis by (simp add: nonSystem_def)
qed

lemma find_append_none: "\<forall>x \<in> set xs. \<not> P x \<Longrightarrow> find P (xs @ ys) = find P ys"
  by (induction xs) auto

lemma pinnedSystem_drop_nonSystem: "pinnedSystem (drop k (nonSystem C) @ pinnedSystem C) = pinnedSystem C"
proof -
  have "\<forall>x \<in> set (drop k (nonSystem C)). \<not> role x = ''system''"
    by (auto simp: nonSystem_def dest: in_set_dropD)
  then have "find (\<lambda>m. role m = ''system'') (drop k (nonSystem C) @ pinnedSystem C)
           = find (\<lambda>m. role m = ''system'') (pinnedSystem C)"
    by (rule find_append_none)
  moreover have "(case find (\<lambda>m. role m = ''system'') (pinnedSystem C) of None \<Rightarrow> [] | Some s \<Rightarrow> [s])
           = pinnedSystem C"
    using pinnedSystem_cases [of C] by auto
  ultimately show ?thesis by (simp add: pinnedSystem_def)
qed

lemma truncateByTokens_idempotent:
  "truncateByTokens enc (truncateByTokens enc C maxTokens) maxTokens = truncateByTokens enc C maxTokens"
proof -
  let ?ns = "nonSystem C" and ?p = "pinnedSystem C"
  let ?st = "totalApproxTokens enc ?p"
  from truncateByTokens_suffix [of C enc maxTokens]
  obtain k where k: "k \<le> length ?ns"
    and res: "truncateByTokens enc C maxTokens = drop k ?ns @ ?p"
    and fit: "k < length ?ns \<longrightarrow> ?st + totalApproxTokens enc (drop k ?ns) \<le> maxTokens"
    by blast
  let ?R = "drop k ?ns @ ?p"
  have ns': "nonSystem ?R = drop k ?ns" by (rule nonSystem_drop_nonSystem)
  have p': "pinnedSystem ?R = ?p" by (rule pinnedSystem_drop_nonSystem)
  from truncateByTokens_suffix [of ?R enc maxTokens]
  obtain j where j: "j \<le> length (drop k ?ns)"
    and res': "truncateByTokens enc ?R maxTokens = drop j (drop k ?ns) @ ?p"
    and stop: "0 < j \<longrightarrow> maxTokens < ?st + totalApproxTokens enc (drop (j - 1) (drop k ?ns))"
    unfolding ns' p' by blast
  have "j = 0"
  proof (rule ccontr)
    assume "j \<noteq> 0"
    then have pos: "0 < j" by simp
    with j have "k < length ?ns" by simp
    with fit have "?st + totalApproxTokens enc (drop k ?ns) \<le> maxTokens" by simp
    moreover have "totalApproxTokens enc (drop (j - 1) (drop k ?ns))
                 \<le> totalApproxTokens enc (drop 0 (drop k ?ns))"
      by (rule totalApproxTokens_drop_antimono) simp
    ultimately show False using stop pos by simp
  qed
  with res' res show ?thesis by simp
qed

lemma drop_length_minus_one: "xs \<noteq> [] \<Longrightarrow> drop (length xs - Suc 0) xs = [last xs]"
  by (cases xs rule: rev_cases) simp_all

lemma truncateByTokens_kept_iff:
  "\<exists>k \<le> length (nonSystem C).
     truncateByTokens enc C maxTokens = drop k (nonSystem C) @ pinnedSystem C
   \<and> (\<forall>j < length (nonSystem C).
         k \<le> j \<longleftrightarrow>
         totalApproxTokens enc (pinnedSystem C) + totalApproxTokens enc (drop j (nonSystem C))
           \<le> maxTokens)"
proof -
  let ?ns = "nonSystem C" and ?p = "pinnedSystem C"
  let ?st = "totalApproxTokens enc ?p"
  from truncateByTokens_suffix [of C enc maxTokens]
  obtain k where k: "k \<le> length ?ns"
    and res: "truncateByTokens enc C maxTokens = drop k ?ns @ ?p"
    and fit: "k < length ?ns \<longrightarrow> ?st + totalApproxTokens enc (drop k ?ns) \<le> maxTokens"
    and stop: "0 < k \<longrightarrow> maxTokens < ?st + totalApproxTokens enc (drop (k - 1) ?ns)"
    by blast
  have "k \<le> j \<longleftrightarrow> ?st + totalApproxTokens enc (drop j ?ns) \<le> maxTokens"
    if j: "j < length ?ns" for j
  proof
    assume kj: "k \<le> j"
    with j have "k < length ?ns" by simp
    with fit have "?st + totalApproxTokens enc (drop k ?ns) \<le> maxTokens" by simp
    moreover from kj have "totalApproxTokens enc (drop j ?ns) \<le> totalApproxTokens enc (drop k ?ns)"
      by (rule totalApproxTokens_drop_antimono)
    ultimately show "?st + totalApproxTokens enc (drop j ?ns) \<le> maxTokens" by simp
  next
    assume le: "?st + totalApproxTokens enc (drop j ?ns) \<le> maxTokens"
    show "k \<le> j"
    proof (rule ccontr)
      assume "\<not> k \<le> j"
      then have jk: "j \<le> k - 1" and pos: "0 < k" by simp_all
      from jk have "totalApproxTokens enc (drop (k - 1) ?ns) \<le> totalApproxTokens enc (drop j ?ns)"
        by (rule totalApproxTokens_drop_antimono)
      with stop pos le show False by simp
    qed
  qed
  with k res show ?thesis by blast
qed

lemma totalApproxTokens_uniform:
  "\<forall>m \<in> set xs. approxTokens enc m = c \<Longrightarrow> totalApproxTokens enc xs = c * length xs"
  by (induction xs) (simp_all add: approxTokens_def)

lemma truncateByTokens_fifty:
  assumes len: "length C = 50"
    and all: "\<forall>m \<in> set C. role m \<noteq> ''system'' \<and> approxTokens enc m = 100"
  shows "truncateByTokens enc C 450 = drop 46 C"
proof -
  have ns: "nonSystem C = C" using all by (simp add: nonSystem_def filter_id_conv)
  have "find (\<lambda>m. role m = ''system'') C = None" using all by (simp add: find_None_iff)
  then have p: "pinnedSystem C = []" by (simp add: pinnedSystem_def)
  have tok: "totalApproxTokens enc (drop j C) = 100 * (50 - j)" for j
  proof -
    have "\<forall>m \<in> set (drop j C). approxTokens enc m = 100"
      using all by (auto dest: in_set_dropD)
    from totalApproxTokens_uniform [OF this] len show ?thesis by simp
  qed
  from truncateByTokens_kept_iff [of C enc 450]
  obtain k where res: "truncateByTokens enc C 450 = drop k C"
    and iff: "\<forall>j < 50. k \<le> j \<longleftrightarrow> 100 * (50 - j) \<le> (450::nat)"
    unfolding ns p using len tok by auto
  from iff [rule_format, of 46] have "k \<le> 46" by simp
  moreover from iff [rule_format, of 45] have "\<not> k \<le> 45" by simp
  ultimately have "k = 46" by simp
  with res show ?thesis by simp
qed

section \<open>Properties of the hybrid strategy and of the server\<close>

lemma walkNewestFirst_cong:
  "\<forall>m \<in> set xs. enc (content m) = enc' (content m)
   \<Longrightarrow> walkNewestFirst enc maxTokens xs tot res0 = walkNewestFirst enc' maxTokens xs tot res0"
  by (induction xs arbitrary: tot res0) simp_all

lemma find_Some_in_set: "find P xs = Some x \<Longrightarrow> x \<in> set xs"
  by (induction xs) (auto split: if_splits)

lemma truncateByTokens_cong:
  assumes "\<forall>m \<in> set C. enc (content m) = enc' (content m)"
  shows "truncateByTokens enc C maxTokens = truncateByTokens enc' C maxTokens"
proof -
  from assms have walk: "walkNewestFirst enc maxTokens (rev C) tot res0
      = walkNewestFirst enc' maxTokens (rev C) tot res0" for tot res0
    by (intro walkNewestFirst_cong) simp
  show ?thesis
  proof (cases "find (\<lambda>m. role m = ''system'') C")
    case None
    then show ?thesis by (simp add: truncateByTokens_def walk)
  next
    case (Some s)
    then have "s \<in> set C" by (rule find_Some_in_set)
    with assms have "enc (content s) = enc' (content s)" by blast
    with Some show ?thesis by (simp add: truncateByTokens_def walk)
  qed
qed

lemma summarizeOldMessages_snd:
  "snd (summarizeOldMessages client old w) = snd (client (summaryRequestFor old) w)"
  by (simp add: summarizeOldMessages_def split: prod.splits sum.splits)

lemma summarizeOldMessages_cong:
  "client (summaryRequestFor old) w = client' (summaryRequestFor old) w'
   \<Longrightarrow> summarizeOldMessages client old w = summarizeOldMessages client' old w'"
  by (simp add: summarizeOldMessages_def)

lemma chatHandler_guard:
  "(\<not> isArray (readMember (bodyOrEmpty reqBody) ''messages'')
      \<or> length (arrayItems (readMember (bodyOrEmpty reqBody) ''messages'')) = 0)
   \<longleftrightarrow> \<not> hasMessages reqBody"
proof (cases reqBody)
  case None
  then show ?thesis by (simp add: bodyOrEmpty_def hasMessages_def isArray_def)
next
  case (Some b)
  then show ?thesis
    by (cases b)
       (auto simp: bodyOrEmpty_def hasMessages_def isArray_def arrayItems_def
             split: option.splits json.splits list.splits)
qed

lemma chatHandler_rejects:
  "\<not> hasMessages reqBody \<Longrightarrow> chatHandler client development reqBody w = (badRequest, w)"
  using chatHandler_guard [of reqBody] by (simp add: chatHandler_def Let_def)

lemma chatHandler_accepts:
  "hasMessages reqBody
   \<Longrightarrow> statusCode (fst (chatHandler client development reqBody w)) \<in> {200, 500}"
  using chatHandler_guard [of reqBody]
  by (auto simp: chatHandler_def Let_def internalError_def split: prod.splits sum.splits list.splits)

text \<open>
  The hybrid strategy bounds nothing: here it returns 43 tokens (one per character) in three
  messages under \<open>maxTokens = 5\<close>.
\<close>

lemma smartContextManagement_over_budget_example:
  "smartContextManagement countingProvider charCount
     [\<lparr> role = ''system'', content = ''Be terse.'' \<rparr>,
      \<lparr> role = ''user'', content = ''Hi'' \<rparr>,
      \<lparr> role = ''assistant'', content = ''Hello'' \<rparr>,
      \<lparr> role = ''user'', content = ''Bye'' \<rparr>] 1 5 0
   = (Inr [\<lparr> role = ''system'', content = ''Be terse.'' \<rparr>,
           \<lparr> role = ''system'', content = ''Previous conversation summary: '' \<rparr>,
           \<lparr> role = ''user'', content = ''Bye'' \<rparr>], Suc 0)
   \<and> charCount [\<lparr> role = ''system'', content = ''Be terse.'' \<rparr>,
           \<lparr> role = ''system'', content = ''Previous conversation summary: '' \<rparr>,
           \<lparr> role = ''user'', content = ''Bye'' \<rparr>] = 43"
  by (simp add: charCount_def oldSegment_def slice_def sliceFrom_def relativeIndex_def
      smartContextManagement_def summarizeOldMessages_def countingProvider_def
      firstChoiceContent_def Let_def)

section \<open>Claims about token-based truncation\<close>

text \<open>
  C1 (as amended). For every message list and every \<open>maxTokens\<close>, the messages returned by
  \<^verbatim>\<open>truncateByTokens\<close> total at most \<open>maxTokens\<close> tokens, or else the result is exactly the
  singleton first system message of the input, whose own tokens exceed \<open>maxTokens\<close>. The
  function returns a list only: no warning goes with it.
\<close>

theorem truncateByTokens_budget:
  "totalApproxTokens enc (truncateByTokens enc C maxTokens) \<le> maxTokens
   \<or> (\<exists>s. find (\<lambda>m. role m = ''system'') C = Some s
          \<and> truncateByTokens enc C maxTokens = [s]
          \<and> maxTokens < approxTokens enc s)"
proof -
  from truncateByTokens_suffix [of C enc maxTokens]
  obtain k where k: "k \<le> length (nonSystem C)"
    and res: "truncateByTokens enc C maxTokens = drop k (nonSystem C) @ pinnedSystem C"
    and fit: "k < length (nonSystem C) \<longrightarrow>
        totalApproxTokens enc (pinnedSystem C) + totalApproxTokens enc (drop k (nonSystem C))
          \<le> maxTokens"
    by blast
  show ?thesis
  proof (cases "k < length (nonSystem C)")
    case True
    with fit res show ?thesis by simp
  next
    case False
    with k res have r: "truncateByTokens enc C maxTokens = pinnedSystem C" by simp
    from pinnedSystem_cases [of C] show ?thesis
    proof
      assume "pinnedSystem C = [] \<and> find (\<lambda>m. role m = ''system'') C = None"
      with r show ?thesis by simp
    next
      assume "\<exists>s. pinnedSystem C = [s] \<and> find (\<lambda>m. role m = ''system'') C = Some s
                \<and> role s = ''system''"
      then obtain s where s: "pinnedSystem C = [s]" "find (\<lambda>m. role m = ''system'') C = Some s"
        by blast
      show ?thesis
      proof (cases "maxTokens < approxTokens enc s")
        case True
        with r s show ?thesis by simp
      next
        case False
        with r s show ?thesis by (simp add: approxTokens_def)
      qed
    qed
  qed
qed

text \<open>
  C1 as stated fails: with a 28-token system message, a 6-token user message and
  \<open>maxTokens = 10\<close> (one token per character) the result is the system message alone: over
  budget, and not the singleton newest message.
\<close>

theorem truncateByTokens_budget_counterexample:
  "\<not> (totalApproxTokens length
         (truncateByTokens length
            [\<lparr> role = ''system'', content = ''You are a helpful assistant.'' \<rparr>,
             \<lparr> role = ''user'', content = ''Hello!'' \<rparr>] 10) \<le> 10
      \<or> truncateByTokens length
            [\<lparr> role = ''system'', content = ''You are a helpful assistant.'' \<rparr>,
             \<lparr> role = ''user'', content = ''Hello!'' \<rparr>] 10
          = [\<lparr> role = ''user'', content = ''Hello!'' \<rparr>])"
  by (simp add: truncateByTokens_def)

text \<open>
  C10. The output of \<^verbatim>\<open>truncateByTokens\<close> contains at most one system-role message: its
  system-role messages are exactly the first system message found in the input (none when
  there is none), whatever the budget.
\<close>

theorem truncateByTokens_one_system:
  "filter isSystem (truncateByTokens enc C maxTokens) = pinnedSystem C
   \<and> length (filter isSystem (truncateByTokens enc C maxTokens)) \<le> 1"
proof -
  from truncateByTokens_suffix [of C enc maxTokens]
  obtain k where res: "truncateByTokens enc C maxTokens = drop k (nonSystem C) @ pinnedSystem C"
    by blast
  have eq: "isSystem = (\<lambda>m. role m = ''system'')" by (simp add: isSystem_def fun_eq_iff)
  have "filter isSystem (truncateByTokens enc C maxTokens) = pinnedSystem C"
    unfolding eq res by simp
  moreover have "length (pinnedSystem C) \<le> 1"
    using pinnedSystem_cases [of C] by auto
  ultimately show ?thesis by simp
qed

text \<open>
  C2 (as amended). Where the tokenizer yields a count for every message content, the result
  of \<^verbatim>\<open>truncateByTokens\<close> is non-empty exactly when the input has a system message or its
  newest non-system message fits the budget together with the system message. When the
  newest non-system message fits, it is in the result; when it does not (or there is none),
  the result holds no non-system message at all: it is the system message alone, or empty.
  No warning is produced. The encoder is a total function here, so nothing is said about a
  call of \<^verbatim>\<open>enc.encode\<close> that throws.
\<close>

theorem truncateByTokens_newest:
  "(truncateByTokens enc C maxTokens \<noteq> [] \<longleftrightarrow>
      pinnedSystem C \<noteq> []
      \<or> (nonSystem C \<noteq> []
          \<and> totalApproxTokens enc (pinnedSystem C) + approxTokens enc (last (nonSystem C))
              \<le> maxTokens))
   \<and> (nonSystem C \<noteq> []
        \<and> totalApproxTokens enc (pinnedSystem C) + approxTokens enc (last (nonSystem C))
              \<le> maxTokens
      \<longrightarrow> last (nonSystem C) \<in> set (truncateByTokens enc C maxTokens))
   \<and> (nonSystem C = []
        \<or> maxTokens
              < totalApproxTokens enc (pinnedSystem C) + approxTokens enc (last (nonSystem C))
      \<longrightarrow> truncateByTokens enc C maxTokens = pinnedSystem C)"
proof -
  let ?ns = "nonSystem C" and ?p = "pinnedSystem C"
  let ?st = "totalApproxTokens enc ?p"
  from truncateByTokens_suffix [of C enc maxTokens]
  obtain k where k: "k \<le> length ?ns"
    and res: "truncateByTokens enc C maxTokens = drop k ?ns @ ?p"
    and fit: "k < length ?ns \<longrightarrow> ?st + totalApproxTokens enc (drop k ?ns) \<le> maxTokens"
    and stop: "0 < k \<longrightarrow> maxTokens < ?st + totalApproxTokens enc (drop (k - 1) ?ns)"
    by blast
  have lastTok: "totalApproxTokens enc (drop (length ?ns - 1) ?ns) = approxTokens enc (last ?ns)"
    if "?ns \<noteq> []"
    using that by (simp add: drop_length_minus_one approxTokens_def)
  have fits: "k < length ?ns"
    if ne: "?ns \<noteq> []" and le: "?st + approxTokens enc (last ?ns) \<le> maxTokens"
  proof (rule ccontr)
    assume "\<not> k < length ?ns"
    with k have keq: "k = length ?ns" by simp
    with ne have "0 < k" by simp
    with stop keq lastTok [OF ne] le show False by simp
  qed
  have over: "k = length ?ns"
    if ne: "?ns \<noteq> []" and gt: "maxTokens < ?st + approxTokens enc (last ?ns)"
  proof (rule ccontr)
    assume "k \<noteq> length ?ns"
    with k have lt: "k < length ?ns" by simp
    then have "totalApproxTokens enc (drop (length ?ns - 1) ?ns)
             \<le> totalApproxTokens enc (drop k ?ns)"
      by (intro totalApproxTokens_drop_antimono) simp
    with fit lt lastTok [OF ne] gt show False by simp
  qed
  have A: "last ?ns \<in> set (truncateByTokens enc C maxTokens)"
    if ne: "?ns \<noteq> []" and le: "?st + approxTokens enc (last ?ns) \<le> maxTokens"
  proof -
    from fits [OF ne le] have "drop k ?ns \<noteq> []" by simp
    then have "last (drop k ?ns) \<in> set (drop k ?ns)" by (rule last_in_set)
    moreover have "last (drop k ?ns) = last ?ns" using fits [OF ne le] by (simp add: last_drop)
    ultimately show ?thesis using res by simp
  qed
  have B: "truncateByTokens enc C maxTokens = ?p"
    if "?ns = [] \<or> maxTokens < ?st + approxTokens enc (last ?ns)"
  proof (cases "?ns = []")
    case True
    with res show ?thesis by simp
  next
    case False
    with that over have "k = length ?ns" by blast
    with res show ?thesis by simp
  qed
  have C: "truncateByTokens enc C maxTokens \<noteq> [] \<longleftrightarrow>
      ?p \<noteq> [] \<or> (?ns \<noteq> [] \<and> ?st + approxTokens enc (last ?ns) \<le> maxTokens)"
  proof (cases "?ns \<noteq> [] \<and> ?st + approxTokens enc (last ?ns) \<le> maxTokens")
    case True
    with A have "last ?ns \<in> set (truncateByTokens enc C maxTokens)" by blast
    then have "truncateByTokens enc C maxTokens \<noteq> []" by auto
    with True show ?thesis by blast
  next
    case False
    then have "?ns = [] \<or> maxTokens < ?st + approxTokens enc (last ?ns)" by auto
    from B [OF this] False show ?thesis by auto
  qed
  from A B C show ?thesis by blast
qed

theorem truncateByTokens_newest_witness:
  "nonSystem [\<lparr> role = ''system'', content = ''Be terse.'' \<rparr>,
              \<lparr> role = ''user'', content = ''Hello!'' \<rparr>] \<noteq> []
   \<and> \<lparr> role = ''user'', content = ''Hello!'' \<rparr>
       \<in> set (truncateByTokens length
                 [\<lparr> role = ''system'', content = ''Be terse.'' \<rparr>,
                  \<lparr> role = ''user'', content = ''Hello!'' \<rparr>] 20)
   \<and> truncateByTokens length
         [\<lparr> role = ''system'', content = ''Be terse.'' \<rparr>,
          \<lparr> role = ''user'', content = ''Hello!'' \<rparr>] 10
       = [\<lparr> role = ''system'', content = ''Be terse.'' \<rparr>]"
  using truncateByTokens_newest [of length
          "[\<lparr> role = ''system'', content = ''Be terse.'' \<rparr>,
            \<lparr> role = ''user'', content = ''Hello!'' \<rparr>]" 20]
        truncateByTokens_newest [of length
          "[\<lparr> role = ''system'', content = ''Be terse.'' \<rparr>,
            \<lparr> role = ''user'', content = ''Hello!'' \<rparr>]" 10]
  by (simp add: pinnedSystem_def approxTokens_def)

text \<open>
  C2 as stated fails: a conversation of one user message of 15 tokens (one token per
  character) under \<open>maxTokens = 3\<close> is reduced to the empty list.
\<close>

theorem truncateByTokens_newest_counterexample:
  "[\<lparr> role = ''user'', content = ''Tell me a story'' \<rparr>] \<noteq> []
   \<and> truncateByTokens length [\<lparr> role = ''user'', content = ''Tell me a story'' \<rparr>] 3 = []"
  by (simp add: truncateByTokens_def)

text \<open>
  C4 (as amended). \<^verbatim>\<open>truncateByTokens\<close> applies the rule to the non-system messages only:
  every system-role message is skipped by the walk, neither counted nor kept, and the first
  system message's tokens start the total. The result is the non-system messages from an
  index \<open>k\<close> on, followed by the first system message: walking from the newest, the
  non-system message at index \<open>j\<close> is kept exactly when the first system message's tokens
  plus the tokens of the non-system messages from \<open>j\<close> on are at most \<open>maxTokens\<close>, so
  a non-system message that lands the total exactly at \<open>maxTokens\<close> is kept and the walk
  stops at the first non-system message that takes the total strictly above it. In
  particular, of 50 messages of 100 tokens each, none of them a system message, with
  \<open>maxTokens = 450\<close> exactly the newest 4 are kept.
\<close>

theorem truncateByTokens_strategyB:
  "(\<exists>k \<le> length (nonSystem C).
      truncateByTokens enc C maxTokens = drop k (nonSystem C) @ pinnedSystem C
    \<and> (\<forall>j < length (nonSystem C).
          k \<le> j \<longleftrightarrow>
          totalApproxTokens enc (pinnedSystem C) + totalApproxTokens enc (drop j (nonSystem C))
            \<le> maxTokens))
   \<and> (length C = 50 \<and> (\<forall>m \<in> set C. role m \<noteq> ''system'' \<and> approxTokens enc m = 100)
      \<longrightarrow> truncateByTokens enc C 450 = drop 46 C)"
  using truncateByTokens_kept_iff [of C enc maxTokens] truncateByTokens_fifty [of C enc]
  by blast

theorem truncateByTokens_strategyB_witness:
  "length (map (\<lambda>i. \<lparr> role = ''user'', content = replicate i CHR ''x'' \<rparr>) [0..<50]) = 50
   \<and> list_all (\<lambda>m. role m \<noteq> ''system'' \<and> approxTokens (\<lambda>s. 100) m = 100)
        (map (\<lambda>i. \<lparr> role = ''user'', content = replicate i CHR ''x'' \<rparr>) [0..<50])
   \<and> truncateByTokens (\<lambda>s. 100)
        (map (\<lambda>i. \<lparr> role = ''user'', content = replicate i CHR ''x'' \<rparr>) [0..<50]) 450
       = map (\<lambda>i. \<lparr> role = ''user'', content = replicate i CHR ''x'' \<rparr>) [46..<50]"
proof -
  let ?mk = "\<lambda>i. \<lparr> role = ''user'', content = replicate i CHR ''x'' \<rparr>"
  let ?C = "map ?mk [0..<50]"
  have len: "length ?C = 50" by simp
  have all: "\<forall>m \<in> set ?C. role m \<noteq> ''system'' \<and> approxTokens (\<lambda>s. 100) m = 100"
    by (simp add: approxTokens_def)
  have d: "drop 46 ?C = map ?mk [46..<50]" by (simp add: drop_map)
  from truncateByTokens_strategyB [of ?C "\<lambda>s. 100" 450] len all
  have "truncateByTokens (\<lambda>s. 100) ?C 450 = drop 46 ?C" by blast
  with d len all show ?thesis by (simp add: list_all_iff)
qed

text \<open>
  C4 as stated fails: the walk does not treat every message alike. With a system message,
  a user message and a second, newer system message of one token each and
  \<open>maxTokens = 2\<close>, including the newest message would land the total exactly at
  \<open>maxTokens\<close>; it is skipped all the same, and the older user message is kept in its
  place.
\<close>

theorem truncateByTokens_strategyB_counterexample:
  "approxTokens length \<lparr> role = ''system'', content = ''P'' \<rparr>
     + approxTokens length \<lparr> role = ''system'', content = ''Q'' \<rparr> = 2
   \<and> truncateByTokens length
         [\<lparr> role = ''system'', content = ''P'' \<rparr>,
          \<lparr> role = ''user'', content = ''a'' \<rparr>,
          \<lparr> role = ''system'', content = ''Q'' \<rparr>] 2
       = [\<lparr> role = ''user'', content = ''a'' \<rparr>, \<lparr> role = ''system'', content = ''P'' \<rparr>]
   \<and> \<lparr> role = ''system'', content = ''Q'' \<rparr>
       \<notin> set (truncateByTokens length
                 [\<lparr> role = ''system'', content = ''P'' \<rparr>,
                  \<lparr> role = ''user'', content = ''a'' \<rparr>,
                  \<lparr> role = ''system'', content = ''Q'' \<rparr>] 2)"
  by (simp add: truncateByTokens_def approxTokens_def)

section \<open>Claims about the pinned system message and idempotence\<close>

text \<open>
  C6. The claim wants the pinned system message first and exactly once in every reduced
  result. The code keeps it, but not there: \<^verbatim>\<open>truncateByTokens\<close> pushes it first and then
  \<^verbatim>\<open>unshift\<close>s every kept message in front of it, so it ends up last; \<^verbatim>\<open>truncateMessages\<close>
  puts it in front of a window that still contains it, so it occurs twice. Both are
  evaluated here on a system message followed by one user message.
\<close>

theorem pinned_system_misplaced_or_duplicated:
  "truncateByTokens length
     [\<lparr> role = ''system'', content = ''You are a helpful assistant.'' \<rparr>,
      \<lparr> role = ''user'', content = ''Hello!'' \<rparr>] 4000
   = [\<lparr> role = ''user'', content = ''Hello!'' \<rparr>,
      \<lparr> role = ''system'', content = ''You are a helpful assistant.'' \<rparr>]
   \<and> truncateMessages
     [\<lparr> role = ''system'', content = ''You are a helpful assistant.'' \<rparr>,
      \<lparr> role = ''user'', content = ''Hello!'' \<rparr>] 20
   = [\<lparr> role = ''system'', content = ''You are a helpful assistant.'' \<rparr>,
      \<lparr> role = ''system'', content = ''You are a helpful assistant.'' \<rparr>,
      \<lparr> role = ''user'', content = ''Hello!'' \<rparr>]"
  by (simp add: truncateByTokens_def truncateMessages_def sliceFrom_def relativeIndex_def)

text \<open>
  C7. Reducing a reduced conversation again under the same budget should change nothing.
  \<^verbatim>\<open>truncateByTokens\<close> has the property (lemma \<open>truncateByTokens_idempotent\<close>);
  \<^verbatim>\<open>truncateMessages\<close> has not: each pass over a conversation whose system message lies in
  the window adds one more copy of the system message.
\<close>

theorem truncateMessages_not_idempotent:
  "truncateMessages
     (truncateMessages
        [\<lparr> role = ''system'', content = ''You are a helpful assistant.'' \<rparr>,
         \<lparr> role = ''user'', content = ''Hello!'' \<rparr>] 20) 20
   = [\<lparr> role = ''system'', content = ''You are a helpful assistant.'' \<rparr>,
      \<lparr> role = ''system'', content = ''You are a helpful assistant.'' \<rparr>,
      \<lparr> role = ''system'', content = ''You are a helpful assistant.'' \<rparr>,
      \<lparr> role = ''user'', content = ''Hello!'' \<rparr>]
   \<and> truncateMessages
        [\<lparr> role = ''system'', content = ''You are a helpful assistant.'' \<rparr>,
         \<lparr> role = ''user'', content = ''Hello!'' \<rparr>] 20
   = [\<lparr> role = ''system'', content = ''You are a helpful assistant.'' \<rparr>,
      \<lparr> role = ''system'', content = ''You are a helpful assistant.'' \<rparr>,
      \<lparr> role = ''user'', content = ''Hello!'' \<rparr>]"
  by (simp add: truncateMessages_def sliceFrom_def relativeIndex_def)

section \<open>Claims about failures of the external calls\<close>

text \<open>
  C3 (as amended). When the completion call of a turn fails (\<^verbatim>\<open>fetch\<close> rejects, or the
  response's status is not a success), \<^verbatim>\<open>callChatEndpoint\<close> throws and leaves the message
  list as the list before the turn with the user message appended; no assistant reply is
  appended.
\<close>

theorem callChatEndpoint_failure_keeps_user_message:
  "callFailed (fetch \<lparr> bodyMessages = messages @ [\<lparr> role = ''user'', content = userInput \<rparr>],
                       bodyTemperature = 7 / 10, bodyMaxTokens = 256 \<rparr>)
   \<Longrightarrow> \<exists>err. callChatEndpoint fetch messages userInput
              = (Inl err, messages @ [\<lparr> role = ''user'', content = userInput \<rparr>])"
  by (auto simp: callChatEndpoint_def callFailed_def Let_def split: fetchResult.splits)

theorem callChatEndpoint_failure_keeps_user_message_witness:
  "callFailed (serverError \<lparr> bodyMessages = initialMessages @ [\<lparr> role = ''user'', content = ''Hello'' \<rparr>],
                             bodyTemperature = 7 / 10, bodyMaxTokens = 256 \<rparr>)
   \<and> (\<exists>err. callChatEndpoint serverError initialMessages ''Hello''
              = (Inl err, initialMessages @ [\<lparr> role = ''user'', content = ''Hello'' \<rparr>]))"
proof -
  have h: "callFailed (serverError \<lparr> bodyMessages = initialMessages @ [\<lparr> role = ''user'', content = ''Hello'' \<rparr>],
                             bodyTemperature = 7 / 10, bodyMaxTokens = 256 \<rparr>)"
    by (simp add: callFailed_def serverError_def)
  from callChatEndpoint_failure_keeps_user_message [of serverError initialMessages "''Hello''"] h
  show ?thesis by blast
qed

text \<open>
  C3 as stated fails: after a turn answered with status 500 the message list is not the
  list the turn began with.
\<close>

theorem callChatEndpoint_atomic_counterexample:
  "callFailed (serverError \<lparr> bodyMessages = initialMessages @ [\<lparr> role = ''user'', content = ''Hello'' \<rparr>],
                             bodyTemperature = 7 / 10, bodyMaxTokens = 256 \<rparr>)
   \<and> snd (callChatEndpoint serverError initialMessages ''Hello'') \<noteq> initialMessages"
  by (simp add: callFailed_def serverError_def callChatEndpoint_def initialMessages_def)

text \<open>
  C5 (as amended). When the token estimate is not below \<open>maxTokens\<close>, the old segment is
  non-empty and the summarization call fails, \<^verbatim>\<open>smartContextManagement\<close> fails with that
  same error: there is no fallback to truncation and no result is returned.
\<close>

theorem smartContextManagement_summarize_failure_propagates:
  "\<not> estimateTokens messages < maxTokens
   \<Longrightarrow> oldSegment messages maxRecent \<noteq> []
   \<Longrightarrow> client (summaryRequestFor (oldSegment messages maxRecent)) w = (Inl err, w')
   \<Longrightarrow> smartContextManagement client estimateTokens messages maxRecent maxTokens w = (Inl err, w')"
  by (simp add: smartContextManagement_def summarizeOldMessages_def Let_def)

theorem smartContextManagement_summarize_failure_propagates_witness:
  "\<not> charCount [\<lparr> role = ''system'', content = ''Be terse.'' \<rparr>,
                \<lparr> role = ''user'', content = ''Hi'' \<rparr>,
                \<lparr> role = ''assistant'', content = ''Hello'' \<rparr>,
                \<lparr> role = ''user'', content = ''Bye'' \<rparr>] < 5
   \<and> oldSegment [\<lparr> role = ''system'', content = ''Be terse.'' \<rparr>,
                 \<lparr> role = ''user'', content = ''Hi'' \<rparr>,
                 \<lparr> role = ''assistant'', content = ''Hello'' \<rparr>,
                 \<lparr> role = ''user'', content = ''Bye'' \<rparr>] 1
       = [\<lparr> role = ''user'', content = ''Hi'' \<rparr>, \<lparr> role = ''assistant'', content = ''Hello'' \<rparr>]
   \<and> smartContextManagement providerDown charCount
         [\<lparr> role = ''system'', content = ''Be terse.'' \<rparr>,
          \<lparr> role = ''user'', content = ''Hi'' \<rparr>,
          \<lparr> role = ''assistant'', content = ''Hello'' \<rparr>,
          \<lparr> role = ''user'', content = ''Bye'' \<rparr>] 1 5 ()
       = (Inl (ProviderError ''provider down''), ())"
proof -
  let ?C = "[\<lparr> role = ''system'', content = ''Be terse.'' \<rparr>,
             \<lparr> role = ''user'', content = ''Hi'' \<rparr>,
             \<lparr> role = ''assistant'', content = ''Hello'' \<rparr>,
             \<lparr> role = ''user'', content = ''Bye'' \<rparr>]"
  have h1: "\<not> charCount ?C < 5" by (simp add: charCount_def)
  have old: "oldSegment ?C 1
       = [\<lparr> role = ''user'', content = ''Hi'' \<rparr>, \<lparr> role = ''assistant'', content = ''Hello'' \<rparr>]"
    by (simp add: oldSegment_def slice_def relativeIndex_def)
  then have h2: "oldSegment ?C 1 \<noteq> []" by simp
  have h3: "providerDown (summaryRequestFor (oldSegment ?C 1)) ()
            = (Inl (ProviderError ''provider down''), ())"
    by (simp add: providerDown_def)
  from smartContextManagement_summarize_failure_propagates
         [of charCount ?C 5 1 providerDown "()" "ProviderError ''provider down''" "()"] h1 h2 h3
  have "smartContextManagement providerDown charCount ?C 1 5 ()
        = (Inl (ProviderError ''provider down''), ())" by blast
  with h1 old show ?thesis by simp
qed

text \<open>
  C5 as stated fails: with the provider down and a non-empty old segment the reduction
  ends in the provider's error.
\<close>

theorem smartContextManagement_fallback_counterexample:
  "\<not> charCount [\<lparr> role = ''system'', content = ''Be terse.'' \<rparr>,
                \<lparr> role = ''user'', content = ''Hi'' \<rparr>,
                \<lparr> role = ''assistant'', content = ''Hello'' \<rparr>,
                \<lparr> role = ''user'', content = ''Bye'' \<rparr>] < 5
   \<and> oldSegment [\<lparr> role = ''system'', content = ''Be terse.'' \<rparr>,
                 \<lparr> role = ''user'', content = ''Hi'' \<rparr>,
                 \<lparr> role = ''assistant'', content = ''Hello'' \<rparr>,
                 \<lparr> role = ''user'', content = ''Bye'' \<rparr>] 1 \<noteq> []
   \<and> fst (smartContextManagement providerDown charCount
         [\<lparr> role = ''system'', content = ''Be terse.'' \<rparr>,
          \<lparr> role = ''user'', content = ''Hi'' \<rparr>,
          \<lparr> role = ''assistant'', content = ''Hello'' \<rparr>,
          \<lparr> role = ''user'', content = ''Bye'' \<rparr>] 1 5 ())
       = Inl (ProviderError ''provider down'')"
  by (simp add: charCount_def oldSegment_def slice_def relativeIndex_def
      smartContextManagement_def summarizeOldMessages_def providerDown_def Let_def)

section \<open>Claims about purity and the request check of the server\<close>

text \<open>
  C8 (as amended). \<^verbatim>\<open>truncateByTokens\<close> is a function of the message list, \<open>maxTokens\<close> and
  the token counts of the messages only. \<^verbatim>\<open>smartContextManagement\<close> makes no provider call
  and returns a result that does not depend on the provider when the token estimate is below
  \<open>maxTokens\<close> or the old segment is empty. Otherwise it makes the one summarization call:
  the state of the provider afterwards is the one that call leaves, and the outcome is
  determined by the inputs together with the provider's answer to that call.
\<close>

theorem reduce_purity:
  "((\<forall>m \<in> set messages. enc (content m) = enc' (content m))
      \<longrightarrow> truncateByTokens enc messages maxTokens = truncateByTokens enc' messages maxTokens)
   \<and> (estimateTokens messages < maxTokens \<or> oldSegment messages maxRecent = []
      \<longrightarrow> snd (smartContextManagement client estimateTokens messages maxRecent maxTokens w) = w
        \<and> fst (smartContextManagement client estimateTokens messages maxRecent maxTokens w)
          = fst (smartContextManagement client' estimateTokens messages maxRecent maxTokens w'))
   \<and> (\<not> estimateTokens messages < maxTokens \<and> oldSegment messages maxRecent \<noteq> []
      \<longrightarrow> snd (smartContextManagement client estimateTokens messages maxRecent maxTokens w)
          = snd (client (summaryRequestFor (oldSegment messages maxRecent)) w)
        \<and> (client (summaryRequestFor (oldSegment messages maxRecent)) w
             = client' (summaryRequestFor (oldSegment messages maxRecent)) w'
           \<longrightarrow> smartContextManagement client estimateTokens messages maxRecent maxTokens w
             = smartContextManagement client' estimateTokens messages maxRecent maxTokens w'))"
proof (intro conjI impI)
  assume "\<forall>m \<in> set messages. enc (content m) = enc' (content m)"
  then show "truncateByTokens enc messages maxTokens = truncateByTokens enc' messages maxTokens"
    by (rule truncateByTokens_cong)
next
  assume h: "estimateTokens messages < maxTokens \<or> oldSegment messages maxRecent = []"
  show "snd (smartContextManagement client estimateTokens messages maxRecent maxTokens w) = w"
    using h by (auto simp: smartContextManagement_def Let_def)
  show "fst (smartContextManagement client estimateTokens messages maxRecent maxTokens w)
      = fst (smartContextManagement client' estimateTokens messages maxRecent maxTokens w')"
    using h by (auto simp: smartContextManagement_def Let_def)
next
  assume h: "\<not> estimateTokens messages < maxTokens \<and> oldSegment messages maxRecent \<noteq> []"
  then have h1: "\<not> estimateTokens messages < maxTokens"
    and h2: "oldSegment messages maxRecent \<noteq> []" by simp_all
  have "snd (smartContextManagement client estimateTokens messages maxRecent maxTokens w)
      = snd (summarizeOldMessages client (oldSegment messages maxRecent) w)"
    using h1 h2 by (simp add: smartContextManagement_def Let_def split: prod.splits sum.splits)
  then show "snd (smartContextManagement client estimateTokens messages maxRecent maxTokens w)
      = snd (client (summaryRequestFor (oldSegment messages maxRecent)) w)"
    by (simp add: summarizeOldMessages_snd)
  assume "client (summaryRequestFor (oldSegment messages maxRecent)) w
             = client' (summaryRequestFor (oldSegment messages maxRecent)) w'"
  then have "summarizeOldMessages client (oldSegment messages maxRecent) w
           = summarizeOldMessages client' (oldSegment messages maxRecent) w'"
    by (rule summarizeOldMessages_cong)
  then show "smartContextManagement client estimateTokens messages maxRecent maxTokens w
             = smartContextManagement client' estimateTokens messages maxRecent maxTokens w'"
    using h1 h2 by (simp add: smartContextManagement_def Let_def)
qed

theorem reduce_purity_witness:
  "charCount [\<lparr> role = ''system'', content = ''Be terse.'' \<rparr>,
             \<lparr> role = ''user'', content = ''Hi'' \<rparr>,
             \<lparr> role = ''assistant'', content = ''Hello'' \<rparr>,
             \<lparr> role = ''user'', content = ''Bye'' \<rparr>] < 100
   \<and> snd (smartContextManagement countingProvider charCount
            [\<lparr> role = ''system'', content = ''Be terse.'' \<rparr>,
             \<lparr> role = ''user'', content = ''Hi'' \<rparr>,
             \<lparr> role = ''assistant'', content = ''Hello'' \<rparr>,
             \<lparr> role = ''user'', content = ''Bye'' \<rparr>] 1 100 0) = 0
   \<and> fst (smartContextManagement countingProvider charCount
            [\<lparr> role = ''system'', content = ''Be terse.'' \<rparr>,
             \<lparr> role = ''user'', content = ''Hi'' \<rparr>,
             \<lparr> role = ''assistant'', content = ''Hello'' \<rparr>,
             \<lparr> role = ''user'', content = ''Bye'' \<rparr>] 1 100 0)
     = fst (smartContextManagement providerDown charCount
            [\<lparr> role = ''system'', content = ''Be terse.'' \<rparr>,
             \<lparr> role = ''user'', content = ''Hi'' \<rparr>,
             \<lparr> role = ''assistant'', content = ''Hello'' \<rparr>,
             \<lparr> role = ''user'', content = ''Bye'' \<rparr>] 1 100 (7::nat))
   \<and> \<not> charCount [\<lparr> role = ''system'', content = ''Be terse.'' \<rparr>,
             \<lparr> role = ''user'', content = ''Hi'' \<rparr>,
             \<lparr> role = ''assistant'', content = ''Hello'' \<rparr>,
             \<lparr> role = ''user'', content = ''Bye'' \<rparr>] < 5
   \<and> oldSegment [\<lparr> role = ''system'', content = ''Be terse.'' \<rparr>,
             \<lparr> role = ''user'', content = ''Hi'' \<rparr>,
             \<lparr> role = ''assistant'', content = ''Hello'' \<rparr>,
             \<lparr> role = ''user'', content = ''Bye'' \<rparr>] 1 \<noteq> []
   \<and> snd (smartContextManagement countingProvider charCount
            [\<lparr> role = ''system'', content = ''Be terse.'' \<rparr>,
             \<lparr> role = ''user'', content = ''Hi'' \<rparr>,
             \<lparr> role = ''assistant'', content = ''Hello'' \<rparr>,
             \<lparr> role = ''user'', content = ''Bye'' \<rparr>] 1 5 0) = Suc 0
   \<and> truncateByTokens length
            [\<lparr> role = ''system'', content = ''Be terse.'' \<rparr>,
             \<lparr> role = ''user'', content = ''Hi'' \<rparr>,
             \<lparr> role = ''assistant'', content = ''Hello'' \<rparr>,
             \<lparr> role = ''user'', content = ''Bye'' \<rparr>] 12
     = truncateByTokens size
            [\<lparr> role = ''system'', content = ''Be terse.'' \<rparr>,
             \<lparr> role = ''user'', content = ''Hi'' \<rparr>,
             \<lparr> role = ''assistant'', content = ''Hello'' \<rparr>,
             \<lparr> role = ''user'', content = ''Bye'' \<rparr>] 12"
proof -
  let ?C = "[\<lparr> role = ''system'', content = ''Be terse.'' \<rparr>,
             \<lparr> role = ''user'', content = ''Hi'' \<rparr>,
             \<lparr> role = ''assistant'', content = ''Hello'' \<rparr>,
             \<lparr> role = ''user'', content = ''Bye'' \<rparr>]"
  have small: "charCount ?C < 100" by (simp add: charCount_def)
  have large: "\<not> charCount ?C < 5" by (simp add: charCount_def)
  have old: "oldSegment ?C 1 \<noteq> []" by (simp add: oldSegment_def slice_def relativeIndex_def)
  have same: "\<forall>m \<in> set ?C. length (content m) = size (content m)" by simp
  have call: "snd (countingProvider (summaryRequestFor (oldSegment ?C 1)) 0) = Suc 0"
    by (simp add: countingProvider_def)
  note a = reduce_purity [where messages = ?C and enc = length and enc' = size
      and maxTokens = 100 and estimateTokens = charCount and maxRecent = 1
      and client = countingProvider and w = 0 and client' = providerDown and w' = 7]
  note b = reduce_purity [where messages = ?C and enc = length and enc' = size
      and maxTokens = 5 and estimateTokens = charCount and maxRecent = 1
      and client = countingProvider and w = 0 and client' = countingProvider and w' = 0]
  note c = reduce_purity [where messages = ?C and enc = length and enc' = size
      and maxTokens = 12 and estimateTokens = charCount and maxRecent = 1
      and client = countingProvider and w = 0 and client' = countingProvider and w' = 0]
  from a small have
    "snd (smartContextManagement countingProvider charCount ?C 1 100 0) = 0"
    "fst (smartContextManagement countingProvider charCount ?C 1 100 0)
     = fst (smartContextManagement providerDown charCount ?C 1 100 (7::nat))"
    by blast+
  moreover from b large old call have
    "snd (smartContextManagement countingProvider charCount ?C 1 5 0) = Suc 0"
    by simp
  moreover from c same have "truncateByTokens length ?C 12 = truncateByTokens size ?C 12"
    by blast
  ultimately show ?thesis using small large old by blast
qed

text \<open>
  C8 as stated fails: two runs on the same conversation and budget, against a provider
  whose answer changes from call to call, return different results, and a run changes the
  state of the provider.
\<close>

theorem reduce_purity_counterexample:
  "fst (smartContextManagement countingProvider charCount
          [\<lparr> role = ''system'', content = ''Be terse.'' \<rparr>,
           \<lparr> role = ''user'', content = ''Hi'' \<rparr>,
           \<lparr> role = ''assistant'', content = ''Hello'' \<rparr>,
           \<lparr> role = ''user'', content = ''Bye'' \<rparr>] 1 5 0)
   \<noteq> fst (smartContextManagement countingProvider charCount
          [\<lparr> role = ''system'', content = ''Be terse.'' \<rparr>,
           \<lparr> role = ''user'', content = ''Hi'' \<rparr>,
           \<lparr> role = ''assistant'', content = ''Hello'' \<rparr>,
           \<lparr> role = ''user'', content = ''Bye'' \<rparr>] 1 5 (Suc 0))
   \<and> snd (smartContextManagement countingProvider charCount
          [\<lparr> role = ''system'', content = ''Be terse.'' \<rparr>,
           \<lparr> role = ''user'', content = ''Hi'' \<rparr>,
           \<lparr> role = ''assistant'', content = ''Hello'' \<rparr>,
           \<lparr> role = ''user'', content = ''Bye'' \<rparr>] 1 5 0) \<noteq> 0"
  by (simp add: charCount_def oldSegment_def slice_def sliceFrom_def relativeIndex_def
      smartContextManagement_def summarizeOldMessages_def countingProvider_def
      firstChoiceContent_def Let_def)

text \<open>
  C9. The handler of \<^verbatim>\<open>POST /chat\<close> answers with status 400 and the error
  \<^verbatim>\<open>messages array is required and must not be empty\<close> exactly when the \<^verbatim>\<open>messages\<close> member of
  the request body is not a non-empty array, and then it returns without calling the
  completion provider: the answer is the same for every provider and the provider's state
  is untouched.
\<close>

theorem chatHandler_bad_request:
  "(fst (chatHandler client development reqBody w) = badRequest \<longleftrightarrow> \<not> hasMessages reqBody)
   \<and> (statusCode (fst (chatHandler client development reqBody w)) = 400
        \<longleftrightarrow> \<not> hasMessages reqBody)
   \<and> (\<not> hasMessages reqBody \<longrightarrow> chatHandler client development reqBody w = (badRequest, w))"
proof (cases "hasMessages reqBody")
  case True
  from chatHandler_accepts [OF True, of client development w]
  have "statusCode (fst (chatHandler client development reqBody w)) \<noteq> 400" by auto
  moreover from this have "fst (chatHandler client development reqBody w) \<noteq> badRequest"
    by (auto simp: badRequest_def)
  ultimately show ?thesis using True by simp
next
  case False
  from chatHandler_rejects [OF False, of client development w] False
  show ?thesis by (simp add: badRequest_def)
qed

theorem chatHandler_bad_request_witness:
  "\<not> hasMessages (Some (JObj [(''temperature'', JNum 1), (''messages'', JArr [])]))
   \<and> chatHandler countingProviderChat False
        (Some (JObj [(''temperature'', JNum 1), (''messages'', JArr [])])) 0
       = (badRequest, 0)
   \<and> hasMessages (Some (JObj [(''messages'',
         JArr [JObj [(''role'', JStr ''user''), (''content'', JStr ''Hello!'')]])]))
   \<and> statusCode (fst (chatHandler countingProviderChat False
        (Some (JObj [(''messages'',
           JArr [JObj [(''role'', JStr ''user''), (''content'', JStr ''Hello!'')]])])) 0)) \<noteq> 400"
proof -
  let ?bad = "Some (JObj [(''temperature'', JNum 1), (''messages'', JArr [])])"
  let ?good = "Some (JObj [(''messages'',
         JArr [JObj [(''role'', JStr ''user''), (''content'', JStr ''Hello!'')]])])"
  have bad: "\<not> hasMessages ?bad" by (simp add: hasMessages_def)
  have good: "hasMessages ?good" by (simp add: hasMessages_def)
  from chatHandler_bad_request [of countingProviderChat False ?bad 0] bad
  have "chatHandler countingProviderChat False ?bad 0 = (badRequest, 0)" by blast
  moreover from chatHandler_bad_request [of countingProviderChat False ?good 0] good
  have "statusCode (fst (chatHandler countingProviderChat False ?good 0)) \<noteq> 400" by blast
  ultimately show ?thesis using bad good by blast
qed

end
